theory Spec2Isabelle
  imports Complex_Main "HOL-Library.Word"
begin

unbundle bit_operations_syntax

section \<open>Grawlix: phoneme sequencing and chip protocol\<close>

text \<open>
  The development follows \<^verbatim>\<open>src/grawlix.ino\<close>. Where the Patch-SM variant of the sketch
  (\<^verbatim>\<open>src/unnamed/part_000\<close>) differs, its function is modelled beside the first one under
  the same name with the suffix \<^verbatim>\<open>_p0\<close>. The timer class \<^verbatim>\<open>HardwarePWM\<close> with the
  registers ARR and CCR1 exists in \<^verbatim>\<open>part_000\<close> only.
\<close>

subsection \<open>C arithmetic\<close>

text \<open>Division of C and C++ truncates towards zero; \<open>div\<close> of HOL rounds down.\<close>

definition c_div :: "int \<Rightarrow> int \<Rightarrow> int" where
  "c_div a b = sgn a * sgn b * (\<bar>a\<bar> div \<bar>b\<bar>)"

definition c_rem :: "int \<Rightarrow> int \<Rightarrow> int" where
  "c_rem a b = a - b * c_div a b"

text \<open>What the C++ standard leaves undefined is a value of the model, never a guess.\<close>

datatype fault = IndexOutOfBounds | DivisionByZero | FloatOutOfLongRange | SignedOverflow

type_synonym byte = "8 word"
type_synonym uint16_t = "16 word"
type_synonym uint32_t = "32 word"

definition LONG_MIN :: int where "LONG_MIN = - (2 ^ 31)"
definition LONG_MAX :: int where "LONG_MAX = 2 ^ 31 - 1"

definition in_long :: "int \<Rightarrow> bool" where
  "in_long v = (LONG_MIN \<le> v \<and> v \<le> LONG_MAX)"

subsection \<open>Tables\<close>

definition validSymbols :: "string list" where
  "validSymbols =
    [''EH3'', ''EH2'', ''EH1'', ''PA0'', ''DT'', ''A2'', ''A1'', ''ZH'',
     ''AH2'', ''I3'', ''I2'', ''I1'', ''M'', ''N'', ''B'', ''V'',
     ''CH'', ''SH'', ''Z'', ''AW1'', ''NG'', ''AH1'', ''OO1'', ''OO'',
     ''L'', ''K'', ''J'', ''H'', ''G'', ''F'', ''D'', ''S'',
     ''A'', ''AY'', ''Y1'', ''UH3'', ''AH'', ''P'', ''O'', ''I'',
     ''U'', ''Y'', ''T'', ''R'', ''E'', ''W'', ''AE'', ''AE1'',
     ''AW2'', ''UH2'', ''UH1'', ''UH'', ''O2'', ''O1'', ''IU'', ''U1'',
     ''THV'', ''TH'', ''ER'', ''EH'', ''E1'', ''AW'', ''PA1'', ''STOP'']"

definition vowelGrid :: "int list list" where
  "vowelGrid =
    [[44, 59, 46, 51, 22],
     [60, 2, 47, 50, 43],
     [41, 1, 36, 49, 58],
     [34, 0, 21, 35, 24],
     [39, 32, 8, 38, 54],
     [11, 6, 61, 53, 40],
     [10, 5, 19, 52, 55],
     [9, 33, 48, 23, 45]]"

text \<open>A read of a C array: outside the array the behaviour is undefined.\<close>

definition array_at :: "'a list \<Rightarrow> int \<Rightarrow> fault + 'a" where
  "array_at xs i = (if 0 \<le> i \<and> i < int (length xs) then Inr (xs ! nat i) else Inl IndexOutOfBounds)"

subsection \<open>The board: pins, events, inputs\<close>

datatype pin = vAr | vStb | vClk | srData | srLatch | srClk

datatype level = LOW | HIGH

datatype event =
    DigitalWrite pin level
  | DigitalRead pin
  | ShiftOut_MSBFIRST pin pin byte
  | Delay int
  | Serial_println string

text \<open>
  Everything the sketch reads from outside at one moment (\<^verbatim>\<open>Process()\<close> and
  \<^verbatim>\<open>analogRead\<close> in \<^verbatim>\<open>grawlix.ino\<close>, \<^verbatim>\<open>Value()\<close> in \<^verbatim>\<open>part_000\<close>). The last two fields are the
  values C++ does not define: \<^verbatim>\<open>arUpdate\<close> is declared \<^verbatim>\<open>bool\<close> and has no
  \<^verbatim>\<open>return\<close>, so what its caller receives is not the level it read; and the local
  \<^verbatim>\<open>advance\<close> of \<^verbatim>\<open>advListen\<close> is read uninitialised when no case of the switch matches.
\<close>

record inputs =
  pSw1_Pressed :: bool
  pSw2_Pressed :: bool
  aSw1_Pressed :: bool
  aSw2_Pressed :: bool
  button_Pressed :: bool
  gate_State :: bool
  vAr_HIGH :: bool
  x_Process :: real
  y_Process :: real
  analogRead_rdm :: int
  x_Value :: real
  y_Value :: real
  rdm_Value :: real
  arUpdate_received :: bool
  advance_uninitialised :: bool

text \<open>
  The platform: the inputs seen by the n-th read the sketch performs, and the generator of
  the C library behind \<^verbatim>\<open>randomSeed\<close> and \<^verbatim>\<open>random\<close> (\<open>srand\<close> gives the state for a
  seed, \<open>rand\<close> a value of at least 0 and the next state).
\<close>

record platform =
  inputs_at :: "nat \<Rightarrow> inputs"
  srand :: "int \<Rightarrow> nat"
  rand :: "nat \<Rightarrow> nat \<times> nat"

subsection \<open>The objects of the sketch\<close>

record Phrase =
  symbols :: "string list"
  inflections :: "int list"
  length_f :: int

definition maxLength :: nat where "maxLength = 32"

text \<open>The object \<^verbatim>\<open>Grawlix g\<close>: its fields, the buffer \<^verbatim>\<open>phrase\<close> and \<^verbatim>\<open>sc01.ar\<close>.\<close>

record Grawlix =
  phonemeMode :: int
  advanceMode :: int
  memoryIndex :: int
  phrase :: Phrase
  sc01_ar :: bool

text \<open>
  The state of a run: the object, the global flag \<^verbatim>\<open>debug\<close>, how many reads were made,
  what was done on the pins and the serial port so far, and the generator's state.
\<close>

record world =
  g :: Grawlix
  debug :: bool
  reads :: nat
  trace :: "event list"
  rand_state :: nat

text \<open>
  \<^verbatim>\<open>Grawlix g;\<close> is a global: its storage is zeroed before the constructor runs, and the
  constructor sets \<^verbatim>\<open>memoryIndex = 0\<close> and \<^verbatim>\<open>length = 32\<close>. Nothing assigns the two modes.
\<close>

definition Phrase_new :: Phrase where
  "Phrase_new = \<lparr>symbols = replicate maxLength [], inflections = replicate maxLength 0, length_f = 32\<rparr>"

definition Grawlix_new :: Grawlix where
  "Grawlix_new = \<lparr>phonemeMode = 0, advanceMode = 0, memoryIndex = 0, phrase = Phrase_new, sc01_ar = False\<rparr>"

definition world_new :: "bool \<Rightarrow> world" where
  "world_new dbg = \<lparr>g = Grawlix_new, debug = dbg, reads = 0, trace = [], rand_state = 0\<rparr>"

definition emit :: "event \<Rightarrow> world \<Rightarrow> world" where
  "emit e w = w\<lparr>trace := trace w @ [e]\<rparr>"

definition debugPrint :: "string \<Rightarrow> world \<Rightarrow> world" where
  "debugPrint message w = (if debug w then emit (Serial_println message) w else w)"

text \<open>One read from outside: the inputs of this moment, and the count moves on.\<close>

definition sample :: "platform \<Rightarrow> world \<Rightarrow> inputs \<times> world" where
  "sample P w = (inputs_at P (reads w), w\<lparr>reads := Suc (reads w)\<rparr>)"

subsection \<open>Arduino library\<close>

text \<open>
  \<^verbatim>\<open>String::operator[]\<close> of the Arduino core: the character at the index, and 0 when the
  index is not below the length.
\<close>

definition String_at :: "string \<Rightarrow> nat \<Rightarrow> char" where
  "String_at s i = (if i < length s then s ! i else CHR 0x00)"

text \<open>\<^verbatim>\<open>String(n)\<close>: the decimal digits of an integer.\<close>

fun dec_digits :: "nat \<Rightarrow> string" where
  "dec_digits n = (if n < 10 then [char_of (48 + n)] else dec_digits (n div 10) @ [char_of (48 + n mod 10)])"

declare dec_digits.simps [simp del]

definition String_of :: "int \<Rightarrow> string" where
  "String_of n = (if n < 0 then CHR ''-'' # dec_digits (nat (- n)) else dec_digits (nat n))"

text \<open>
  \<^verbatim>\<open>long map(long x, long in_min, long in_max, long out_min, long out_max)\<close> of the Arduino
  core: \<^verbatim>\<open>(x - in_min) * (out_max - out_min) / (in_max - in_min) + out_min\<close> in long
  arithmetic. It does not constrain its result to the output range.
\<close>

definition map_long :: "int \<Rightarrow> int \<Rightarrow> int \<Rightarrow> int \<Rightarrow> int \<Rightarrow> fault + int" where
  "map_long x in_min in_max out_min out_max =
     (if in_max - in_min = 0 then Inl DivisionByZero
      else if \<not> (in_long (x - in_min) \<and> in_long ((x - in_min) * (out_max - out_min))) then Inl SignedOverflow
      else let r = c_div ((x - in_min) * (out_max - out_min)) (in_max - in_min) + out_min
           in if in_long r then Inr r else Inl SignedOverflow)"

text \<open>
  A \<^verbatim>\<open>float\<close> passed for a \<^verbatim>\<open>long\<close> parameter: the fraction is dropped; a value that does
  not fit is undefined. The finite floats are among the reals.
\<close>

definition float_to_long :: "real \<Rightarrow> fault + int" where
  "float_to_long x =
     (let t = (if x < 0 then \<lceil>x\<rceil> else \<lfloor>x\<rfloor>)
      in if in_long t then Inr t else Inl FloatOutOfLongRange)"

text \<open>
  \<^verbatim>\<open>randomSeed(seed)\<close> seeds the generator unless the seed is 0; \<^verbatim>\<open>random(howbig)\<close> is
  0 for 0 and \<^verbatim>\<open>rand() % howbig\<close> otherwise; \<^verbatim>\<open>random(howsmall, howbig)\<close> is
  \<^verbatim>\<open>howsmall\<close> when \<^verbatim>\<open>howsmall >= howbig\<close> and
  \<^verbatim>\<open>random(howbig - howsmall) + howsmall\<close> otherwise.
\<close>

definition randomSeed :: "platform \<Rightarrow> int \<Rightarrow> world \<Rightarrow> world" where
  "randomSeed P seed w = (if seed \<noteq> 0 then w\<lparr>rand_state := srand P seed\<rparr> else w)"

definition random1 :: "platform \<Rightarrow> int \<Rightarrow> world \<Rightarrow> int \<times> world" where
  "random1 P howbig w =
     (if howbig = 0 then (0, w)
      else let (r, s) = rand P (rand_state w)
           in (c_rem (int r) howbig, w\<lparr>rand_state := s\<rparr>))"

definition random2 :: "platform \<Rightarrow> int \<Rightarrow> int \<Rightarrow> world \<Rightarrow> int \<times> world" where
  "random2 P howsmall howbig w =
     (if howsmall \<ge> howbig then (howsmall, w)
      else let (r, w') = random1 P (howbig - howsmall) w in (r + howsmall, w'))"

subsection \<open>updateMode\<close>

text \<open>
  \<^verbatim>\<open>int updateMode(int mode, bool a, bool b)\<close>. The parameter \<^verbatim>\<open>mode\<close> is a copy of the
  argument: \<open>updateMode_local\<close> is the value of that copy after the three \<^verbatim>\<open>if\<close>s. The
  function has no \<^verbatim>\<open>return\<close> and every caller drops its result, so the copy is lost when
  the call ends; what is left of the call is the line \<^verbatim>\<open>debugPrint\<close> may print.
\<close>

definition updateMode_local :: "int \<Rightarrow> bool \<Rightarrow> bool \<Rightarrow> int" where
  "updateMode_local mode a b =
     (let mode1 = (if \<not> a \<and> \<not> b then 1 else mode);
          mode2 = (if a \<and> \<not> b then 2 else mode1);
          mode3 = (if \<not> a \<and> b then 3 else mode2)
      in mode3)"

definition updateMode :: "int \<Rightarrow> bool \<Rightarrow> bool \<Rightarrow> world \<Rightarrow> world" where
  "updateMode mode a b w =
     (let mode' = updateMode_local mode a b
      in debugPrint ''Advance Mode Updated.'' w)"

subsection \<open>Phoneme\<close>

record Phoneme_obj =
  symbolIndex :: int
  inflectionIndex :: int
  payload :: byte

text \<open>
  The constructor \<^verbatim>\<open>Phoneme(String symbol, int inflection)\<close>. Its loop assigns
  \<^verbatim>\<open>symbolIndex\<close> in every one of the 64 rounds, comparing the integer \<^verbatim>\<open>inflection\<close>
  with the character \<^verbatim>\<open>symbol[i]\<close> (a \<^verbatim>\<open>char\<close> is unsigned on the ARM target).
  \<^verbatim>\<open>payload\<close> is a byte: both assignments keep the low 8 bits.
\<close>

definition Phoneme_step :: "string \<Rightarrow> int \<Rightarrow> nat \<Rightarrow> int \<Rightarrow> int" where
  "Phoneme_step symbol inflection i symbolIndex0 =
     (if inflection = of_char (String_at symbol i) then int i else 3)"

definition Phoneme :: "string \<Rightarrow> int \<Rightarrow> Phoneme_obj" where
  "Phoneme symbol inflection =
     (let symbolIndex1 = fold (Phoneme_step symbol inflection) [0..<64] 3;
          inflectionIndex1 = (if inflection \<ge> 0 \<and> inflection \<le> 3 then inflection else 0);
          payload1 = (word_of_int (push_bit 6 inflectionIndex1) :: byte);
          payload2 = (word_of_int (uint payload1 OR symbolIndex1) :: byte)
      in \<lparr>symbolIndex = symbolIndex1, inflectionIndex = inflectionIndex1, payload = payload2\<rparr>)"

definition Phoneme_debug :: "string \<Rightarrow> Phoneme_obj \<Rightarrow> string" where
  "Phoneme_debug symbol p =
     ''Phoneme'' @ symbol @ '', '' @ String_of (inflectionIndex p) @ '' = '' @ String_of (uint (payload p))"

text \<open>
  The encoding in the specification's words: the inflection when it lies in 0..3 and 0
  otherwise, shifted left by 6, or-ed with the index of the symbol's name in the
  vocabulary, 3 when the name is not in it.
\<close>

fun index_of :: "string \<Rightarrow> string list \<Rightarrow> nat \<Rightarrow> int option" where
  "index_of s [] k = None"
| "index_of s (x # xs) k = (if s = x then Some (int k) else index_of s xs (Suc k))"

definition encode_spec :: "string \<Rightarrow> int \<Rightarrow> byte" where
  "encode_spec symbol inflection =
     (let inflectionIndex1 = (if 0 \<le> inflection \<and> inflection \<le> 3 then inflection else 0);
          symbolIndex1 = (case index_of symbol validSymbols 0 of None \<Rightarrow> 3 | Some k \<Rightarrow> k)
      in word_of_int (push_bit 6 inflectionIndex1 OR symbolIndex1))"


subsection \<open>Outcomes of a call\<close>

text \<open>
  A call returns, or runs into undefined behaviour, or never returns; in the last case the
  events done up to then are kept. \<open>spin\<close> is the loop \<^verbatim>\<open>while (!advance) {}\<close>: its
  body is empty and nothing else writes the local, so it is left at once or never.
\<close>

datatype 'a outcome = Returns 'a | Undefined fault | Hangs "event list"

definition then_do :: "'a outcome \<Rightarrow> ('a \<Rightarrow> 'b outcome) \<Rightarrow> 'b outcome" where
  "then_do r f = (case r of Returns a \<Rightarrow> f a | Undefined e \<Rightarrow> Undefined e | Hangs t \<Rightarrow> Hangs t)"

definition of_read :: "fault + 'a \<Rightarrow> 'a outcome" where
  "of_read r = (case r of Inl e \<Rightarrow> Undefined e | Inr a \<Rightarrow> Returns a)"

partial_function (option) spin :: "bool \<Rightarrow> unit option" where
  "spin advance = (if \<not> advance then spin advance else Some ())"

declare spin.simps [code]

text \<open>\<^verbatim>\<open>for (int i = 0; i < n; i++)\<close> with a bound the body does not change.\<close>

fun for_each :: "(nat \<Rightarrow> world \<Rightarrow> world outcome) \<Rightarrow> nat list \<Rightarrow> world \<Rightarrow> world outcome" where
  "for_each body [] w = Returns w"
| "for_each body (i # is) w = then_do (body i w) (for_each body is)"

definition for_upto :: "int \<Rightarrow> (nat \<Rightarrow> world \<Rightarrow> world outcome) \<Rightarrow> world \<Rightarrow> world outcome" where
  "for_upto n body w = for_each body [0..<nat n] w"

subsection \<open>Phrase sources\<close>

definition set_phrase :: "(Phrase \<Rightarrow> Phrase) \<Rightarrow> world \<Rightarrow> world" where
  "set_phrase f w = w\<lparr>g := (g w)\<lparr>phrase := f (phrase (g w))\<rparr>\<rparr>"

text \<open>A write to a C array: outside the array the behaviour is undefined.\<close>

definition array_set :: "'a list \<Rightarrow> nat \<Rightarrow> 'a \<Rightarrow> fault + 'a list" where
  "array_set xs i v = (if i < length xs then Inr (xs[i := v]) else Inl IndexOutOfBounds)"

definition set_symbol :: "nat \<Rightarrow> string \<Rightarrow> world \<Rightarrow> world outcome" where
  "set_symbol i v w =
     then_do (of_read (array_set (symbols (phrase (g w))) i v))
       (\<lambda>xs. Returns (set_phrase (\<lambda>p. p\<lparr>symbols := xs\<rparr>) w))"

definition set_inflection :: "nat \<Rightarrow> int \<Rightarrow> world \<Rightarrow> world outcome" where
  "set_inflection i v w =
     then_do (of_read (array_set (inflections (phrase (g w))) i v))
       (\<lambda>xs. Returns (set_phrase (\<lambda>p. p\<lparr>inflections := xs\<rparr>) w))"

text \<open>\<^verbatim>\<open>void setFromMemory()\<close>: a local, a block of comments, a debug line.\<close>

definition setFromMemory :: "world \<Rightarrow> world" where
  "setFromMemory w =
     (let slot = (1::int)
      in debugPrint ''Loaded new phrase from memory slot #slot'' w)"

text \<open>
  \<^verbatim>\<open>int setFromGrid(float x, float y)\<close> of \<^verbatim>\<open>grawlix.ino\<close>: \<^verbatim>\<open>map(x, -1, 1, 0, 7)\<close> and
  \<^verbatim>\<open>map(y, -1, 1, 0, 4)\<close>. It writes \<^verbatim>\<open>length\<close> and \<^verbatim>\<open>symbols[0]\<close> and nothing else.
\<close>

definition grid_lookup :: "int \<Rightarrow> int \<Rightarrow> string outcome" where
  "grid_lookup xIndex yIndex =
     then_do (of_read (array_at vowelGrid xIndex)) (\<lambda>row.
     then_do (of_read (array_at row yIndex)) (\<lambda>code.
     of_read (array_at validSymbols code)))"

definition setFromGrid :: "real \<Rightarrow> real \<Rightarrow> world \<Rightarrow> world outcome" where
  "setFromGrid x y w =
     (let w1 = set_phrase (\<lambda>p. p\<lparr>length_f := 1\<rparr>) w in
      then_do (of_read (float_to_long x)) (\<lambda>xl.
      then_do (of_read (map_long xl (- 1) 1 0 7)) (\<lambda>xIndex.
      then_do (of_read (float_to_long y)) (\<lambda>yl.
      then_do (of_read (map_long yl (- 1) 1 0 4)) (\<lambda>yIndex.
      then_do (grid_lookup xIndex yIndex) (\<lambda>sym.
      then_do (set_symbol 0 sym w1) (\<lambda>w2.
      Returns (debugPrint (''Grid coords #xIndex , #yIndex = '' @ sym) w2))))))))"

text \<open>
  The same function in \<^verbatim>\<open>part_000\<close>: \<^verbatim>\<open>map(x, 0, 10^16-1, 0, 7)\<close>, where \<^verbatim>\<open>^\<close> is
  exclusive or and binds weaker than \<^verbatim>\<open>-\<close>, so the bound is \<^verbatim>\<open>10 ^ 15\<close>, which is 5.
\<close>

definition in_max_p0 :: int where
  "in_max_p0 = 10 XOR (16 - 1)"

definition setFromGrid_p0 :: "real \<Rightarrow> real \<Rightarrow> world \<Rightarrow> world outcome" where
  "setFromGrid_p0 x y w =
     (let w1 = set_phrase (\<lambda>p. p\<lparr>length_f := 1\<rparr>) w in
      then_do (of_read (float_to_long x)) (\<lambda>xl.
      then_do (of_read (map_long xl 0 in_max_p0 0 7)) (\<lambda>xIndex.
      then_do (of_read (float_to_long y)) (\<lambda>yl.
      then_do (of_read (map_long yl 0 in_max_p0 0 4)) (\<lambda>yIndex.
      then_do (grid_lookup xIndex yIndex) (\<lambda>sym.
      then_do (set_symbol 0 sym w1) (\<lambda>w2.
      Returns (debugPrint (''Grid coords '' @ String_of xIndex @ '', '' @ String_of yIndex @ '' = '' @ sym) w2))))))))"

text \<open>
  \<^verbatim>\<open>void setFromRandom()\<close> of \<^verbatim>\<open>grawlix.ino\<close>, with \<^verbatim>\<open>minLen = 4\<close> and
  \<^verbatim>\<open>maxLen = 10\<close>. The generator is seeded again from the noise pin before the length
  and before every index.
\<close>

definition minLen :: int where "minLen = 4"
definition maxLen :: int where "maxLen = 10"

definition seed_from_noise :: "platform \<Rightarrow> world \<Rightarrow> world outcome" where
  "seed_from_noise P w = (let (inp, w1) = sample P w in Returns (randomSeed P (analogRead_rdm inp) w1))"

definition setFromRandom_body :: "(platform \<Rightarrow> world \<Rightarrow> world outcome) \<Rightarrow> platform \<Rightarrow> nat \<Rightarrow> world \<Rightarrow> world outcome" where
  "setFromRandom_body seed P i w =
     then_do (seed P w) (\<lambda>w1.
     let (index, w2) = random2 P 0 63 w1
     in then_do (of_read (array_at validSymbols index)) (\<lambda>sym.
        then_do (set_symbol i sym w2) (\<lambda>w3.
        let (infl, w4) = random2 P 0 3 w3
        in set_inflection i infl w4)))"

definition setFromRandom_from :: "(platform \<Rightarrow> world \<Rightarrow> world outcome) \<Rightarrow> platform \<Rightarrow> world \<Rightarrow> world outcome" where
  "setFromRandom_from seed P w =
     then_do (seed P w) (\<lambda>w1.
     let (len, w2) = random2 P minLen maxLen w1;
         w3 = set_phrase (\<lambda>p. p\<lparr>length_f := len\<rparr>) w2
     in then_do (for_upto (length_f (phrase (g w3))) (setFromRandom_body seed P) w3) (\<lambda>w4.
        Returns (debugPrint (''Generated new random phrase of length '' @ String_of (length_f (phrase (g w4)))) w4)))"

definition setFromRandom :: "platform \<Rightarrow> world \<Rightarrow> world outcome" where
  "setFromRandom P w = setFromRandom_from seed_from_noise P w"

text \<open>
  In \<^verbatim>\<open>part_000\<close> the seed is \<^verbatim>\<open>rdm.Value()\<close>, a \<^verbatim>\<open>float\<close> passed for an unsigned
  integer; the rest of the function is the same.
\<close>

definition float_to_ulong :: "real \<Rightarrow> fault + int" where
  "float_to_ulong x =
     (let t = (if x < 0 then \<lceil>x\<rceil> else \<lfloor>x\<rfloor>)
      in if 0 \<le> t \<and> t < 2 ^ 32 then Inr t else Inl FloatOutOfLongRange)"

definition seed_from_noise_p0 :: "platform \<Rightarrow> world \<Rightarrow> world outcome" where
  "seed_from_noise_p0 P w =
     (let (inp, w1) = sample P w
      in then_do (of_read (float_to_ulong (rdm_Value inp))) (\<lambda>seed. Returns (randomSeed P seed w1)))"

definition setFromRandom_p0 :: "platform \<Rightarrow> world \<Rightarrow> world outcome" where
  "setFromRandom_p0 P w = setFromRandom_from seed_from_noise_p0 P w"

subsection \<open>Votrax: the chip link\<close>

text \<open>
  \<^verbatim>\<open>bool arUpdate()\<close> reads the pin, drops the level and has no \<^verbatim>\<open>return\<close>: the caller
  receives the undefined value of this moment.
\<close>

definition arUpdate :: "platform \<Rightarrow> world \<Rightarrow> bool \<times> world" where
  "arUpdate P w =
     (let (inp, w1) = sample P w;
          w2 = emit (DigitalRead vAr) w1;
          level = vAr_HIGH inp;
          w3 = debugPrint ''Ar pulse received.'' w2
      in (arUpdate_received inp, w3))"

definition strobeTime :: int where "strobeTime = 150"

definition strobe :: "world \<Rightarrow> world" where
  "strobe w =
     debugPrint ''SC-01 Input register updated''
       (emit (DigitalWrite vStb LOW)
         (emit (Delay strobeTime)
           (emit (DigitalWrite vStb HIGH) w)))"

definition shiftUpdate :: "byte \<Rightarrow> world \<Rightarrow> world" where
  "shiftUpdate data w =
     emit (DigitalWrite srLatch LOW)
       (emit (DigitalWrite srLatch HIGH)
         (emit (ShiftOut_MSBFIRST srData srClk data) w))"

subsection \<open>advListen\<close>

text \<open>
  The three cases of the switch. The right operand of \<^verbatim>\<open>&&\<close> is read only when
  \<^verbatim>\<open>arUpdate()\<close> gave true.
\<close>

definition adv_auto :: "platform \<Rightarrow> world \<Rightarrow> bool \<times> world" where
  "adv_auto P w = arUpdate P (debugPrint ''Advance Mode: Auto Mode'' w)"

definition adv_button :: "platform \<Rightarrow> world \<Rightarrow> bool \<times> world" where
  "adv_button P w =
     (let (r, w1) = arUpdate P (debugPrint ''Advance Mode: Button Mode'' w)
      in if r then (let (inp, w2) = sample P w1 in (button_Pressed inp, w2)) else (False, w1))"

definition adv_gate :: "platform \<Rightarrow> world \<Rightarrow> bool \<times> world" where
  "adv_gate P w =
     (let (r, w1) = arUpdate P (debugPrint ''Advance Mode: Gate Mode'' w)
      in if r then (let (inp, w2) = sample P w1 in (gate_State inp, w2)) else (False, w1))"

definition read_advance_switches :: "platform \<Rightarrow> world \<Rightarrow> world" where
  "read_advance_switches P w =
     (let (i1, w1) = sample P w;
          (i2, w2) = sample P w1
      in updateMode (advanceMode (g w2)) (aSw1_Pressed i1) (aSw2_Pressed i2) w2)"

text \<open>
  \<^verbatim>\<open>grawlix.ino\<close>: no case ends in \<^verbatim>\<open>break\<close>, so case 1 runs on into cases 2 and 3 and
  case 2 into case 3; the last assignment to \<^verbatim>\<open>advance\<close> stands.
\<close>

definition advListen_advance :: "platform \<Rightarrow> world \<Rightarrow> bool \<times> world" where
  "advListen_advance P w =
     (let w1 = read_advance_switches P w;
          m = advanceMode (g w1);
          (advance, w2) =
            (if m = 1 then adv_gate P (snd (adv_button P (snd (adv_auto P w1))))
             else if m = 2 then adv_gate P (snd (adv_button P w1))
             else if m = 3 then adv_gate P w1
             else (advance_uninitialised (inputs_at P (reads w1)), w1))
      in (advance, debugPrint ''Waiting to Advance...'' w2))"

text \<open>\<^verbatim>\<open>part_000\<close>: every case ends in \<^verbatim>\<open>break\<close>.\<close>

definition advListen_advance_p0 :: "platform \<Rightarrow> world \<Rightarrow> bool \<times> world" where
  "advListen_advance_p0 P w =
     (let w1 = read_advance_switches P w;
          m = advanceMode (g w1);
          (advance, w2) =
            (if m = 1 then adv_auto P w1
             else if m = 2 then adv_button P w1
             else if m = 3 then adv_gate P w1
             else (advance_uninitialised (inputs_at P (reads w1)), w1))
      in (advance, debugPrint ''Waiting to Advance...'' w2))"

definition wait_advance :: "bool \<times> world \<Rightarrow> world outcome" where
  "wait_advance aw = (case spin (fst aw) of Some u \<Rightarrow> Returns (snd aw) | None \<Rightarrow> Hangs (trace (snd aw)))"

definition advListen :: "platform \<Rightarrow> world \<Rightarrow> world outcome" where
  "advListen P w = wait_advance (advListen_advance P w)"

definition advListen_p0 :: "platform \<Rightarrow> world \<Rightarrow> world outcome" where
  "advListen_p0 P w = wait_advance (advListen_advance_p0 P w)"

subsection \<open>say\<close>

text \<open>
  \<^verbatim>\<open>void say(Phrase phrase)\<close>: the phrase is a copy. For each index below its length:
  the switches are read, the phoneme is built and its byte is loaded (\<open>say_load\<close>),
  \<^verbatim>\<open>advListen\<close> waits, and then the strobe is pulsed.
\<close>

definition say_load :: "platform \<Rightarrow> Phrase \<Rightarrow> nat \<Rightarrow> world \<Rightarrow> world outcome" where
  "say_load P phr i w =
     (let w1 = read_advance_switches P w in
      then_do (of_read (array_at (symbols phr) (int i))) (\<lambda>sym.
      then_do (of_read (array_at (inflections phr) (int i))) (\<lambda>infl.
      let p = Phoneme sym infl;
          w2 = debugPrint (Phoneme_debug sym p) w1;
          w3 = debugPrint (''Inflection: '' @ String_of (inflectionIndex p)) w2
      in Returns (shiftUpdate (payload p) w3))))"

definition say_body :: "platform \<Rightarrow> Phrase \<Rightarrow> nat \<Rightarrow> world \<Rightarrow> world outcome" where
  "say_body P phr i w =
     then_do (say_load P phr i w) (\<lambda>w4.
     then_do (advListen P w4) (\<lambda>w5.
     Returns (strobe w5)))"

definition say :: "platform \<Rightarrow> Phrase \<Rightarrow> world \<Rightarrow> world outcome" where
  "say P phr w = for_upto (length_f phr) (say_body P phr) (debugPrint ''Synthesizing phonemes...'' w)"

subsection \<open>main\<close>

definition main_memory :: "world \<Rightarrow> world" where
  "main_memory w = setFromMemory (debugPrint ''Phoneme Mode: Memory Mode'' w)"

definition main_grid :: "platform \<Rightarrow> world \<Rightarrow> world outcome" where
  "main_grid P w =
     (let w1 = debugPrint ''Phoneme Mode: Grid Mode'' w;
          (ix, w2) = sample P w1;
          (iy, w3) = sample P w2
      in setFromGrid (x_Process ix) (y_Process iy) w3)"

definition main_random :: "platform \<Rightarrow> world \<Rightarrow> world outcome" where
  "main_random P w = setFromRandom P (debugPrint ''Phoneme Mode: Random Mode'' w)"

text \<open>
  The switch of \<^verbatim>\<open>main\<close> in \<^verbatim>\<open>grawlix.ino\<close>, on the field \<^verbatim>\<open>phonemeMode\<close>: no case ends
  in \<^verbatim>\<open>break\<close>.
\<close>

definition main_switch :: "platform \<Rightarrow> world \<Rightarrow> world outcome" where
  "main_switch P w =
     (let m = phonemeMode (g w)
      in if m = 1 then then_do (main_grid P (main_memory w)) (main_random P)
         else if m = 2 then then_do (main_grid P w) (main_random P)
         else if m = 3 then main_random P w
         else Returns w)"

partial_function (option) wait_button :: "platform \<Rightarrow> world \<Rightarrow> world option" where
  "wait_button P w =
     (let (inp, w1) = sample P w
      in if \<not> button_Pressed inp then wait_button P w1 else Some w1)"

declare wait_button.simps [code]

definition main :: "platform \<Rightarrow> world \<Rightarrow> world outcome" where
  "main P w =
     (let (i1, w1) = sample P w;
          (i2, w2) = sample P w1;
          w3 = updateMode (phonemeMode (g w2)) (pSw1_Pressed i1) (pSw2_Pressed i2) w2
      in then_do (main_switch P w3) (\<lambda>w4.
         then_do (say P (phrase (g w4)) w4) (\<lambda>w5.
         case wait_button P w5 of Some w6 \<Rightarrow> Returns w6 | None \<Rightarrow> Hangs (trace w5))))"


text \<open>The switch of \<^verbatim>\<open>main\<close> in \<^verbatim>\<open>part_000\<close>: every case ends in \<^verbatim>\<open>break\<close>.\<close>

definition main_grid_p0 :: "platform \<Rightarrow> world \<Rightarrow> world outcome" where
  "main_grid_p0 P w =
     (let w1 = debugPrint ''Phoneme Mode: Grid Mode'' w;
          (ix, w2) = sample P w1;
          (iy, w3) = sample P w2
      in setFromGrid_p0 (x_Value ix) (y_Value iy) w3)"

definition main_random_p0 :: "platform \<Rightarrow> world \<Rightarrow> world outcome" where
  "main_random_p0 P w = setFromRandom_p0 P (debugPrint ''Phoneme Mode: Random Mode'' w)"

definition main_switch_p0 :: "platform \<Rightarrow> world \<Rightarrow> world outcome" where
  "main_switch_p0 P w =
     (let m = phonemeMode (g w)
      in if m = 1 then Returns (main_memory w)
         else if m = 2 then main_grid_p0 P w
         else if m = 3 then main_random_p0 P w
         else Returns w)"

text \<open>
  The rest of the cycle in \<^verbatim>\<open>part_000\<close>: \<^verbatim>\<open>shiftUpdate\<close> ends with one more debug
  line, \<^verbatim>\<open>say\<close> and \<^verbatim>\<open>main\<close> are as in \<^verbatim>\<open>grawlix.ino\<close> over the switches with
  \<^verbatim>\<open>break\<close>.
\<close>

definition shiftUpdate_p0 :: "byte \<Rightarrow> world \<Rightarrow> world" where
  "shiftUpdate_p0 data w = debugPrint ''Shift register loaded, ready to strobe.'' (shiftUpdate data w)"

definition say_load_p0 :: "platform \<Rightarrow> Phrase \<Rightarrow> nat \<Rightarrow> world \<Rightarrow> world outcome" where
  "say_load_p0 P phr i w =
     (let w1 = read_advance_switches P w in
      then_do (of_read (array_at (symbols phr) (int i))) (\<lambda>sym.
      then_do (of_read (array_at (inflections phr) (int i))) (\<lambda>infl.
      let p = Phoneme sym infl;
          w2 = debugPrint (Phoneme_debug sym p) w1;
          w3 = debugPrint (''Inflection: '' @ String_of (inflectionIndex p)) w2
      in Returns (shiftUpdate_p0 (payload p) w3))))"

definition say_body_p0 :: "platform \<Rightarrow> Phrase \<Rightarrow> nat \<Rightarrow> world \<Rightarrow> world outcome" where
  "say_body_p0 P phr i w =
     then_do (say_load_p0 P phr i w) (\<lambda>w4.
     then_do (advListen_p0 P w4) (\<lambda>w5.
     Returns (strobe w5)))"

definition say_p0 :: "platform \<Rightarrow> Phrase \<Rightarrow> world \<Rightarrow> world outcome" where
  "say_p0 P phr w = for_upto (length_f phr) (say_body_p0 P phr) (debugPrint ''Synthesizing phonemes...'' w)"

definition main_p0 :: "platform \<Rightarrow> world \<Rightarrow> world outcome" where
  "main_p0 P w =
     (let (i1, w1) = sample P w;
          (i2, w2) = sample P w1;
          w3 = updateMode (phonemeMode (g w2)) (pSw1_Pressed i1) (pSw2_Pressed i2) w2
      in then_do (main_switch_p0 P w3) (\<lambda>w4.
         then_do (say_p0 P (phrase (g w4)) w4) (\<lambda>w5.
         case wait_button P w5 of Some w6 \<Rightarrow> Returns w6 | None \<Rightarrow> Hangs (trace w5))))"

subsection \<open>HardwarePWM: the chip's clock (\<^verbatim>\<open>part_000\<close>)\<close>

text \<open>
  The fields with their initialisers. \<^verbatim>\<open>10^3\<close> and \<^verbatim>\<open>10^6\<close> are exclusive ors, and a
  \<^verbatim>\<open>uint32_t\<close> initialised with \<^verbatim>\<open>0.5\<close> holds 0. \<^verbatim>\<open>System::GetPClk2Freq()\<close> is the
  parameter \<open>pclk2\<close>.
\<close>

record HardwarePWM =
  kHz :: uint32_t
  MHz :: uint32_t
  prescaler :: uint32_t
  system_clock_rate :: uint32_t
  default_freq :: uint32_t
  default_counter_period :: uint32_t
  default_pw :: uint32_t
  default_pw_period :: uint32_t
  target_freq :: uint32_t
  target_pw :: uint32_t

text \<open>The two registers of timer 3 the class writes through \<^verbatim>\<open>htim3.Instance\<close>.\<close>

record TIM_regs =
  ARR :: uint32_t
  CCR1 :: uint32_t

definition uint32_of_double :: "real \<Rightarrow> uint32_t" where
  "uint32_of_double x = word_of_int \<lfloor>x\<rfloor>"

definition HardwarePWM_new :: "uint32_t \<Rightarrow> HardwarePWM" where
  "HardwarePWM_new pclk2 =
     (let kHz1 = 10 XOR 3;
          MHz1 = 10 XOR 6;
          default_freq1 = 720 * kHz1;
          default_counter_period1 = (pclk2 div default_freq1) - 1;
          default_pw1 = uint32_of_double 0.5
      in \<lparr>kHz = kHz1, MHz = MHz1, prescaler = 0, system_clock_rate = pclk2,
          default_freq = default_freq1, default_counter_period = default_counter_period1,
          default_pw = default_pw1, default_pw_period = default_counter_period1 * default_pw1,
          target_freq = default_freq1, target_pw = uint32_of_double 0.5\<rparr>)"

text \<open>
  \<^verbatim>\<open>Init()\<close>: of the calls into the vendor's HAL, \<^verbatim>\<open>HAL_TIM_Base_Init\<close> writes
  \<^verbatim>\<open>Init.Period\<close> to ARR and \<^verbatim>\<open>HAL_TIM_PWM_ConfigChannel\<close> writes \<^verbatim>\<open>Pulse\<close> to
  CCR1; both report \<^verbatim>\<open>HAL_OK\<close> for a handle that is not null.
\<close>

definition Init :: "HardwarePWM \<times> TIM_regs \<Rightarrow> HardwarePWM \<times> TIM_regs" where
  "Init ht = (fst ht, (snd ht)\<lparr>ARR := default_counter_period (fst ht), CCR1 := default_pw_period (fst ht)\<rparr>)"

text \<open>
  \<^verbatim>\<open>freqToTicks\<close> divides by the frequency. A division by zero is undefined in C++: the
  processor traps, or delivers some quotient (the Cortex-M7 of the board delivers 0 unless
  the trap is enabled). What it does is the parameter \<open>z\<close>: \<open>None\<close> for the trap,
  otherwise the quotient it delivers.
\<close>

definition freqToTicks :: "uint32_t option \<Rightarrow> HardwarePWM \<Rightarrow> uint32_t \<Rightarrow> fault + uint32_t" where
  "freqToTicks z h freq =
     (if freq = 0 then (case z of None \<Rightarrow> Inl DivisionByZero | Some q \<Rightarrow> Inr (q - 1))
      else Inr ((system_clock_rate h div freq) - 1))"

definition multipliers :: "real list" where
  "multipliers =
    [0.500, 0.530, 0.561, 0.595, 0.630, 0.667,
     0.707, 0.749, 0.794, 0.841, 0.891, 0.944,
     1.000, 1.059, 1.122, 1.189, 1.260, 1.335,
     1.414, 1.498, 1.587, 1.682, 1.782, 1.888,
     2.000, 2.119, 2.245, 2.378, 2.520, 2.669,
     2.828, 2.996, 3.175, 3.363, 3.563, 3.775,
     4.000]"

text \<open>
  \<^verbatim>\<open>setFreq(uint16_t freq_knob, uint16_t voct_val)\<close>. The locals \<^verbatim>\<open>knob\<close> and
  \<^verbatim>\<open>voct_mult\<close> are computed and never read, so whatever \<^verbatim>\<open>map\<close> and the read of the
  table give them, also past the table's end, has no effect on what follows. \<^verbatim>\<open>map\<close>
  takes \<^verbatim>\<open>long\<close>s, so its bounds \<^verbatim>\<open>0.5\<close> and \<^verbatim>\<open>2\<close> arrive as 0 and 2. The target
  frequency is the product of \<^verbatim>\<open>720 * MHz\<close> with the two raw arguments, in 32 bits.
\<close>

definition setFreq ::
  "uint32_t option \<Rightarrow> uint16_t \<Rightarrow> uint16_t \<Rightarrow> HardwarePWM \<times> TIM_regs \<Rightarrow> (HardwarePWM \<times> TIM_regs) outcome" where
  "setFreq z freq_knob voct_val ht =
     (let knob = map_long (uint freq_knob) 0 in_max_p0 0 2;
          voct_mult = (case map_long (uint voct_val) 0 in_max_p0 0 37 of
                         Inl e \<Rightarrow> Inl e | Inr idx \<Rightarrow> array_at multipliers idx);
          h1 = (fst ht)\<lparr>target_freq := (720 * MHz (fst ht)) * ucast freq_knob * ucast voct_val\<rparr>
      in then_do (of_read (freqToTicks z h1 (target_freq h1))) (\<lambda>target_ticks.
         let updated_pw_period = target_ticks * target_pw h1
         in Returns (h1, (snd ht)\<lparr>ARR := target_ticks, CCR1 := updated_pw_period\<rparr>)))"

definition setPulseWidth ::
  "uint32_t option \<Rightarrow> uint32_t \<Rightarrow> HardwarePWM \<times> TIM_regs \<Rightarrow> (HardwarePWM \<times> TIM_regs) outcome" where
  "setPulseWidth z pw ht =
     (let h1 = (fst ht)\<lparr>target_pw := pw\<rparr>
      in then_do (of_read (freqToTicks z h1 (target_freq h1))) (\<lambda>ticks.
         let target_pw_period = (ticks * target_pw h1) - 1
         in Returns (h1, (snd ht)\<lparr>CCR1 := target_pw_period\<rparr>)))"

subsection \<open>Notions used by the statements\<close>

text \<open>What a call left behind, when it returned.\<close>

definition returned :: "'a outcome \<Rightarrow> 'a option" where
  "returned r = (case r of Returns a \<Rightarrow> Some a | Undefined e \<Rightarrow> None | Hangs t \<Rightarrow> None)"

text \<open>The events on the pins: everything but the serial port.\<close>

fun on_pins :: "event \<Rightarrow> bool" where
  "on_pins (Serial_println m) = False"
| "on_pins e = True"

definition pin_events :: "event list \<Rightarrow> event list" where
  "pin_events t = filter on_pins t"

definition load_events :: "byte \<Rightarrow> event list" where
  "load_events data = [ShiftOut_MSBFIRST srData srClk data, DigitalWrite srLatch HIGH, DigitalWrite srLatch LOW]"

definition strobe_events :: "event list" where
  "strobe_events = [DigitalWrite vStb HIGH, Delay 150, DigitalWrite vStb LOW]"





text \<open>The advance gate in the specification's words, with the modes numbered 1, 2, 3.\<close>

definition mayAdvance_spec :: "int \<Rightarrow> bool \<Rightarrow> bool \<Rightarrow> bool \<Rightarrow> bool" where
  "mayAdvance_spec mode ack buttonPressed gateHigh =
     (if mode = 1 then ack
      else if mode = 2 then ack \<and> buttonPressed
      else if mode = 3 then ack \<and> gateHigh
      else False)"

definition returned_trace :: "world outcome \<Rightarrow> event list option" where
  "returned_trace r = map_option trace (returned r)"

definition returned_phrase :: "world outcome \<Rightarrow> Phrase option" where
  "returned_phrase r = map_option phrase (map_option g (returned r))"

definition with_phonemeMode :: "int \<Rightarrow> world \<Rightarrow> world" where
  "with_phonemeMode m w = w\<lparr>g := (g w)\<lparr>phonemeMode := m\<rparr>\<rparr>"

text \<open>
  The grid quantisation in the specification's words: linear scaling of [-1, 1] onto the
  buckets 0 to n - 1, clamped at the extremes.
\<close>

definition quantize_spec :: "nat \<Rightarrow> real \<Rightarrow> int" where
  "quantize_spec n x = max 0 (min (int n - 1) \<lfloor>(x + 1) * (real n - 1) / 2\<rfloor>)"

definition returned_pins :: "world outcome \<Rightarrow> event list option" where
  "returned_pins r = map_option pin_events (map_option trace (returned r))"

definition duty_within_period :: "TIM_regs \<Rightarrow> bool" where
  "duty_within_period t = (CCR1 t \<le> ARR t)"

definition well_sized :: "Phrase \<Rightarrow> bool" where
  "well_sized p = (length (symbols p) = maxLength \<and> length (inflections p) = maxLength)"

subsection \<open>A board for the examples\<close>

text \<open>
  Steady inputs: no switch thrown, button and gate as given, the acknowledge line high and
  \<^verbatim>\<open>arUpdate\<close> handing back true, both grid controls at 1, noise reading 5; and a small
  stand-in for the C library's generator.
\<close>

definition steady_inputs :: "bool \<Rightarrow> bool \<Rightarrow> inputs" where
  "steady_inputs button gate =
     \<lparr>pSw1_Pressed = False, pSw2_Pressed = False, aSw1_Pressed = False, aSw2_Pressed = False,
      button_Pressed = button, gate_State = gate, vAr_HIGH = True,
      x_Process = 1, y_Process = 1, analogRead_rdm = 5,
      x_Value = 1, y_Value = 1, rdm_Value = 1,
      arUpdate_received = True, advance_uninitialised = False\<rparr>"

definition steady_at :: "bool \<Rightarrow> bool \<Rightarrow> nat \<Rightarrow> inputs" where
  "steady_at button gate n = steady_inputs button gate"

definition toy_srand :: "int \<Rightarrow> nat" where
  "toy_srand seed = nat seed"

definition toy_rand :: "nat \<Rightarrow> nat \<times> nat" where
  "toy_rand s = (7 * s + 62, Suc s)"

definition board :: "bool \<Rightarrow> bool \<Rightarrow> platform" where
  "board button gate = \<lparr>inputs_at = steady_at button gate, srand = toy_srand, rand = toy_rand\<rparr>"

definition world_in_modes :: "bool \<Rightarrow> int \<Rightarrow> int \<Rightarrow> world" where
  "world_in_modes dbg pm am = (world_new dbg)\<lparr>g := Grawlix_new\<lparr>phonemeMode := pm, advanceMode := am\<rparr>\<rparr>"


section \<open>Properties\<close>

subsection \<open>The waiting loop\<close>

lemma spin_Some:
  assumes "spin x = Some y"
  shows "x"
proof (rule spin.raw_induct [where P = "\<lambda>a b. a", OF _ assms])
  fix f :: "bool \<Rightarrow> unit option" and a b
  assume ih: "\<And>x y. f x = Some y \<Longrightarrow> x"
    and eq: "(if \<not> a then f a else Some ()) = Some b"
  show a
  proof (rule ccontr)
    assume n: "\<not> a"
    with eq have "f a = Some b" by simp
    from ih [OF this] n show False by simp
  qed
qed

lemma spin_False: "spin False = None"
  using spin_Some [of False] by (cases "spin False") auto

lemma spin_True: "spin True = Some ()"
  by (simp add: spin.simps)

lemma wait_advance_eq:
  "wait_advance aw = (if fst aw then Returns (snd aw) else Hangs (trace (snd aw)))"
  by (simp add: wait_advance_def spin_True spin_False)

subsection \<open>What each step leaves of the object and on the pins\<close>

lemma debugPrint_g: "g (debugPrint m w) = g w"
  by (simp add: debugPrint_def emit_def)




lemma sample_g: "g (snd (sample P w)) = g w"
  by (simp add: sample_def)

lemma updateMode_g: "g (updateMode m a b w) = g w"
  by (simp add: updateMode_def debugPrint_g)


lemma read_advance_switches_g: "g (read_advance_switches P w) = g w"
  by (simp add: read_advance_switches_def updateMode_g sample_def split: prod.splits)














subsection \<open>PhonemeCodec\<close>

lemma fold_keeps_last: "fold (\<lambda>i acc. h i) (xs @ [n]) a = h n"
  by simp

lemma Phoneme_symbolIndex:
  "symbolIndex (Phoneme symbol inflection) = (if inflection = of_char (String_at symbol 63) then 63 else 3)"
proof -
  have u: "[0..<64] = [0..<63] @ [63]"
    by (simp add: upt_rec [of 63] flip: upt_Suc_append)
  have s: "Phoneme_step symbol inflection =
      (\<lambda>k acc. if inflection = of_char (String_at symbol k) then int k else 3)"
    by (simp add: Phoneme_step_def fun_eq_iff)
  show ?thesis
    unfolding Phoneme_def Let_def s u fold_keeps_last by simp
qed

text \<open>
  Claim C1. The constructor is meant to give the payload (inflection shifted left by 6) or
  (index of the symbol in the vocabulary, 3 when unknown). The loop compares the inflection
  with a character of the name and keeps the result of its last round only, so the index is
  63 or 3 whatever the name: for the name EH3 (index 0) it computes 63 with inflection 0 and
  67 with inflection 1, where the stated encoding gives 0 and 64.
\<close>

theorem Phoneme_EH3_payload:
  "payload (Phoneme ''EH3'' 0) = 63 \<and> encode_spec ''EH3'' 0 = 0 \<and>
   payload (Phoneme ''EH3'' 1) = 67 \<and> encode_spec ''EH3'' 1 = 64"
  by code_simp

subsection \<open>ModeResolver\<close>

text \<open>
  Claim C2, as amended. Inside \<^verbatim>\<open>updateMode\<close> the copy of the mode becomes 1 for
  (false, false), 2 for (true, false) and 3 for (false, true), whatever was passed in; for
  (true, true) no branch fires and it stays the value passed in. Resolving twice gives the
  same as resolving once.
\<close>

theorem updateMode_local_cases:
  "updateMode_local mode False False = 1 \<and>
   updateMode_local mode True False = 2 \<and>
   updateMode_local mode False True = 3 \<and>
   updateMode_local mode True True = mode \<and>
   updateMode_local (updateMode_local mode a b) a b = updateMode_local mode a b"
  by (simp add: updateMode_local_def)

text \<open>
  The claim as stated fails: with the mode 0 the object starts with, (true, true) resolves
  to 0, which is none of the modes 1, 2, 3; and after a call with the switches at
  (true, false) the mode field that the next switch statement reads is not 2.
\<close>

theorem updateMode_counterexample:
  "updateMode_local 0 True True \<notin> {1, 2, 3} \<and>
   advanceMode (g (updateMode (advanceMode (g (world_new False))) True False (world_new False))) \<noteq> 2"
  by code_simp

text \<open>
  Claim C9. A call of \<^verbatim>\<open>updateMode\<close> changes no field of the object, whatever the mode
  and the switches: the world after the call is the world before it, but for the line the
  call prints when \<^verbatim>\<open>debug\<close> is set. The same holds for the reading of the two
  advance switches that precedes every use of \<^verbatim>\<open>advanceMode\<close>.
\<close>

theorem updateMode_changes_nothing:
  "g (updateMode mode a b w) = g w \<and>
   phonemeMode (g (updateMode mode a b w)) = phonemeMode (g w) \<and>
   advanceMode (g (updateMode mode a b w)) = advanceMode (g w) \<and>
   debug (updateMode mode a b w) = debug w \<and>
   reads (updateMode mode a b w) = reads w \<and>
   rand_state (updateMode mode a b w) = rand_state w \<and>
   trace (updateMode mode a b w) =
     trace w @ (if debug w then [Serial_println ''Advance Mode Updated.''] else []) \<and>
   g (read_advance_switches P w) = g w"
  by (simp add: updateMode_def debugPrint_def emit_def read_advance_switches_g)

subsection \<open>PhraseSource\<close>

lemma setFromMemory_g: "g (setFromMemory w) = g w"
  by (simp add: setFromMemory_def debugPrint_g)

lemma main_memory_g: "g (main_memory w) = g w"
  by (simp add: main_memory_def setFromMemory_g debugPrint_g)

text \<open>
  \<^verbatim>\<open>setFromMemory\<close> itself leaves the symbols, the inflections and the length of the
  phrase, and the rest of the object, as they were; the switch of \<^verbatim>\<open>part_000\<close> in mode 1
  hands on the buffer; at start the buffer is 32 empty names with inflection 0 and
  length 32.
\<close>

lemma setFromMemory_leaves_phrase:
  "symbols (phrase (g (setFromMemory w))) = symbols (phrase (g w)) \<and>
   inflections (phrase (g (setFromMemory w))) = inflections (phrase (g w)) \<and>
   length_f (phrase (g (setFromMemory w))) = length_f (phrase (g w)) \<and>
   g (setFromMemory w) = g w \<and>
   returned_phrase (main_switch_p0 P (with_phonemeMode 1 w)) = Some (phrase (g w)) \<and>
   phrase (g (world_new dbg)) = \<lparr>symbols = replicate 32 [], inflections = replicate 32 0, length_f = 32\<rparr>"
  by (simp add: setFromMemory_g main_switch_p0_def returned_phrase_def returned_def main_memory_g
      with_phonemeMode_def world_new_def Grawlix_new_def Phrase_new_def maxLength_def)

text \<open>
  Claim C10. \<^verbatim>\<open>setFromMemory\<close> leaves the phrase unchanged, so that a Memory-mode cycle
  re-emits what was in the buffer. The function does; the cycle of \<^verbatim>\<open>grawlix.ino\<close> does
  not: case 1 of its switch runs on into Grid and Random, so in mode 1, from the buffer of
  32 entries, the phrase handed to \<^verbatim>\<open>say\<close> is not the buffer but a random phrase of length
  5, and \<^verbatim>\<open>main\<close> puts five phonemes with payload 131 on the pins. The cycle of
  \<^verbatim>\<open>part_000\<close>, whose cases end in \<^verbatim>\<open>break\<close>, hands on the buffer and emits its 32
  entries, payload 63 each.
\<close>

theorem memory_cycle_overwrites_buffer:
  "returned_phrase (main_switch (board True True) (world_in_modes False 1 1)) \<noteq>
     Some (phrase (g (world_in_modes False 1 1))) \<and>
   map_option length_f (returned_phrase (main_switch (board True True) (world_in_modes False 1 1))) = Some 5 \<and>
   returned_pins (main (board True True) (world_in_modes False 1 1)) =
     Some (concat (replicate 5 (load_events 131 @ replicate 3 (DigitalRead vAr) @ strobe_events))) \<and>
   returned_phrase (main_switch_p0 (board True True) (world_in_modes False 1 1)) =
     Some (phrase (g (world_in_modes False 1 1))) \<and>
   returned_pins (main_p0 (board True True) (world_in_modes False 1 1)) =
     Some (concat (replicate 32 (load_events 63 @ [DigitalRead vAr] @ strobe_events)))"
  by code_simp

text \<open>
  Claim C3. Every cycle should run exactly one phrase source. In \<^verbatim>\<open>grawlix.ino\<close> no
  case of the switch ends in \<^verbatim>\<open>break\<close>: with debugging on and the mode field at 1, the
  serial port shows Memory, then Grid, then Random running in one cycle, and the phrase
  handed on is the random one. The switch of \<^verbatim>\<open>part_000\<close> runs Memory alone on the same
  input.
\<close>

theorem main_switch_mode_1_runs_all_sources:
  "returned_trace (main_switch (board True True) (world_in_modes True 1 1)) =
     Some [Serial_println ''Phoneme Mode: Memory Mode'',
           Serial_println ''Loaded new phrase from memory slot #slot'',
           Serial_println ''Phoneme Mode: Grid Mode'',
           Serial_println ''Grid coords #xIndex , #yIndex = W'',
           Serial_println ''Phoneme Mode: Random Mode'',
           Serial_println ''Generated new random phrase of length 5''] \<and>
   map_option length_f (returned_phrase (main_switch (board True True) (world_in_modes True 1 1))) = Some 5 \<and>
   returned_trace (main_switch_p0 (board True True) (world_in_modes True 1 1)) =
     Some [Serial_println ''Phoneme Mode: Memory Mode'',
           Serial_println ''Loaded new phrase from memory slot #slot'']"
  by code_simp

subsection \<open>AdvanceGate\<close>

text \<open>
  Claim C5. In Auto mode the gate should open as soon as the chip acknowledges. In
  \<^verbatim>\<open>grawlix.ino\<close> case 1 runs on into cases 2 and 3: with the mode field at 1, the
  acknowledge line high, \<^verbatim>\<open>arUpdate\<close> handing back true, the button pressed and the gate
  input low, \<^verbatim>\<open>advance\<close> ends false, where the stated gate gives true; the switch of
  \<^verbatim>\<open>part_000\<close> gives true on the same input.
\<close>

theorem advListen_auto_mode_waits_for_gate:
  "fst (advListen_advance (board True False) (world_in_modes False 0 1)) = False \<and>
   mayAdvance_spec 1 True True False = True \<and>
   fst (advListen_advance_p0 (board True False) (world_in_modes False 0 1)) = True"
  by code_simp

subsection \<open>ChipLinkDriver\<close>




text \<open>
  Two phonemes on a board that lets the gate pass: load, read, strobe, twice. With the
  gate input low the first byte is loaded, the line is read, and the call never returns.
\<close>

lemma say_two_phonemes:
  "returned_trace (say (board True True) (Phrase_new\<lparr>length_f := 2\<rparr>) (world_in_modes False 0 3)) =
     Some (load_events 63 @ [DigitalRead vAr] @ strobe_events @ load_events 63 @ [DigitalRead vAr] @ strobe_events)"
  by code_simp

lemma say_body_gate_low:
  "say_body (board True False) Phrase_new 0 (world_in_modes False 0 3) =
     Hangs (load_events 63 @ [DigitalRead vAr])"
  unfolding say_body_def advListen_def wait_advance_eq by code_simp









subsection \<open>The Random source\<close>

lemma c_div_nonneg: "0 \<le> a \<Longrightarrow> 0 < b \<Longrightarrow> c_div a b = a div b"
  by (cases "a = 0") (simp_all add: c_div_def sgn_if)

lemma c_rem_nonneg: "0 \<le> a \<Longrightarrow> 0 < b \<Longrightarrow> c_rem a b = a mod b"
  by (simp add: c_rem_def c_div_nonneg minus_mult_div_eq_mod)

lemma random1_range: "0 < n \<Longrightarrow> 0 \<le> fst (random1 P n w) \<and> fst (random1 P n w) < n"
  by (simp add: random1_def c_rem_nonneg split_beta)

lemma random2_range: "lo < hi \<Longrightarrow> lo \<le> fst (random2 P lo hi w) \<and> fst (random2 P lo hi w) < hi"
  using random1_range [of "hi - lo" P w] by (simp add: random2_def split_beta)

lemma random1_g: "g (snd (random1 P n w)) = g w"
  by (simp add: random1_def split_beta)

lemma random2_g: "g (snd (random2 P lo hi w)) = g w"
  by (simp add: random2_def split_beta random1_g)

lemma seed_from_noise_Returns: "\<exists>w1. seed_from_noise P w = Returns w1 \<and> g w1 = g w"
  by (simp add: seed_from_noise_def sample_def randomSeed_def)

lemma validSymbols_length: "length validSymbols = 64" by (simp add: validSymbols_def)

lemma set_symbol_Returns:
  "i < length (symbols (phrase (g w))) \<Longrightarrow>
   set_symbol i v w = Returns (set_phrase (\<lambda>p. p\<lparr>symbols := (symbols (phrase (g w)))[i := v]\<rparr>) w)"
  by (simp add: set_symbol_def array_set_def of_read_def then_do_def)

lemma set_inflection_Returns:
  "i < length (inflections (phrase (g w))) \<Longrightarrow>
   set_inflection i v w = Returns (set_phrase (\<lambda>p. p\<lparr>inflections := (inflections (phrase (g w)))[i := v]\<rparr>) w)"
  by (simp add: set_inflection_def array_set_def of_read_def then_do_def)

lemma setFromRandom_body_Returns:
  assumes "i < length (symbols (phrase (g w)))" "i < length (inflections (phrase (g w)))"
  shows "\<exists>w' k f. setFromRandom_body seed_from_noise P i w = Returns w' \<and> k < 63 \<and> 0 \<le> f \<and> f \<le> 2 \<and>
     phrase (g w') = (phrase (g w))\<lparr>symbols := (symbols (phrase (g w)))[i := validSymbols ! k],
                                  inflections := (inflections (phrase (g w)))[i := f]\<rparr>"
proof -
  obtain w1 where s: "seed_from_noise P w = Returns w1" and g1: "g w1 = g w"
    using seed_from_noise_Returns by blast
  define idx where "idx = fst (random2 P 0 63 w1)"
  define w2 where "w2 = snd (random2 P 0 63 w1)"
  have r: "0 \<le> idx" "idx < 63" using random2_range [of 0 63 P w1] by (simp_all add: idx_def)
  have g2: "g w2 = g w" by (simp add: w2_def random2_g g1)
  have a: "array_at validSymbols idx = Inr (validSymbols ! nat idx)"
    using r by (simp add: array_at_def validSymbols_length)
  define w3 where "w3 = set_phrase (\<lambda>p. p\<lparr>symbols := (symbols (phrase (g w2)))[i := validSymbols ! nat idx]\<rparr>) w2"
  have s3: "set_symbol i (validSymbols ! nat idx) w2 = Returns w3"
    using assms(1) by (simp add: set_symbol_Returns g2 w3_def)
  define f where "f = fst (random2 P 0 3 w3)"
  define w4 where "w4 = snd (random2 P 0 3 w3)"
  have rf: "0 \<le> f" "f < 3" using random2_range [of 0 3 P w3] by (simp_all add: f_def)
  have g4: "g w4 = g w3" by (simp add: w4_def random2_g)
  have p3: "phrase (g w3) = (phrase (g w))\<lparr>symbols := (symbols (phrase (g w)))[i := validSymbols ! nat idx]\<rparr>"
    by (simp add: w3_def set_phrase_def g2)
  have s5: "set_inflection i f w4 =
      Returns (set_phrase (\<lambda>p. p\<lparr>inflections := (inflections (phrase (g w4)))[i := f]\<rparr>) w4)"
    using assms(2) by (intro set_inflection_Returns) (simp add: g4 p3)
  have "setFromRandom_body seed_from_noise P i w =
      Returns (set_phrase (\<lambda>p. p\<lparr>inflections := (inflections (phrase (g w4)))[i := f]\<rparr>) w4)"
    unfolding setFromRandom_body_def s
    by (simp add: then_do_def split_beta Let_def of_read_def a s3 s5
        flip: idx_def w2_def f_def w4_def)
  moreover have "phrase (g (set_phrase (\<lambda>p. p\<lparr>inflections := (inflections (phrase (g w4)))[i := f]\<rparr>) w4)) =
      (phrase (g w))\<lparr>symbols := (symbols (phrase (g w)))[i := validSymbols ! nat idx],
                                  inflections := (inflections (phrase (g w)))[i := f]\<rparr>"
    by (simp add: set_phrase_def g4 p3)
  moreover have "nat idx < 63" using r by simp
  ultimately show ?thesis using rf by (intro exI [of _ "nat idx"] exI [of _ f] exI) auto
qed


lemma for_each_append:
  "for_each body (xs @ ys) w = then_do (for_each body xs w) (for_each body ys)"
  by (induction xs arbitrary: w) (simp_all add: then_do_def split: outcome.splits)

lemma validSymbols_but_last: "k < 63 \<Longrightarrow> validSymbols ! k \<in> set (butlast validSymbols)"
proof -
  assume k: "k < 63"
  then have "butlast validSymbols ! k = validSymbols ! k"
    by (simp add: nth_butlast validSymbols_length)
  moreover have "k < length (butlast validSymbols)" using k by (simp add: validSymbols_length)
  ultimately show ?thesis by (metis nth_mem)
qed

lemma setFromRandom_loop:
  assumes "well_sized (phrase (g w))" "n \<le> maxLength"
  shows "\<exists>w'. for_each (setFromRandom_body seed_from_noise P) [0..<n] w = Returns w' \<and>
     well_sized (phrase (g w')) \<and> length_f (phrase (g w')) = length_f (phrase (g w)) \<and>
     (\<forall>i<n. symbols (phrase (g w')) ! i \<in> set (butlast validSymbols) \<and>
        0 \<le> inflections (phrase (g w')) ! i \<and> inflections (phrase (g w')) ! i \<le> 2)"
  using assms(2)
proof (induction n)
  case 0
  then show ?case using assms(1) by simp
next
  case (Suc n)
  then obtain w1 where l: "for_each (setFromRandom_body seed_from_noise P) [0..<n] w = Returns w1"
    and ws: "well_sized (phrase (g w1))"
    and len: "length_f (phrase (g w1)) = length_f (phrase (g w))"
    and inv: "\<forall>i<n. symbols (phrase (g w1)) ! i \<in> set (butlast validSymbols) \<and>
        0 \<le> inflections (phrase (g w1)) ! i \<and> inflections (phrase (g w1)) ! i \<le> 2"
    by auto
  have n: "n < length (symbols (phrase (g w1)))" "n < length (inflections (phrase (g w1)))"
    using ws Suc.prems by (simp_all add: well_sized_def)
  from setFromRandom_body_Returns [OF n, of P]
  obtain w2 k f where b: "setFromRandom_body seed_from_noise P n w1 = Returns w2"
    and k: "k < 63" and f: "0 \<le> f" "f \<le> 2"
    and p: "phrase (g w2) = (phrase (g w1))\<lparr>symbols := (symbols (phrase (g w1)))[n := validSymbols ! k],
                                  inflections := (inflections (phrase (g w1)))[n := f]\<rparr>"
    by blast
  have run: "for_each (setFromRandom_body seed_from_noise P) [0..<Suc n] w = Returns w2"
    by (simp add: for_each_append l b then_do_def)
  have ws2: "well_sized (phrase (g w2))" using ws by (simp add: p well_sized_def)
  have len2: "length_f (phrase (g w2)) = length_f (phrase (g w))" by (simp add: p len)
  have inv2: "symbols (phrase (g w2)) ! i \<in> set (butlast validSymbols) \<and>
        0 \<le> inflections (phrase (g w2)) ! i \<and> inflections (phrase (g w2)) ! i \<le> 2" if "i < Suc n" for i
  proof (cases "i = n")
    case True
    then show ?thesis using n f validSymbols_but_last [OF k] by (simp add: p)
  next
    case False
    with that have "i < n" by simp
    with inv False show ?thesis by (simp add: p)
  qed
  show ?case using run ws2 len2 inv2 by blast
qed

lemma STOP_is_last: "''STOP'' \<notin> set (butlast validSymbols) \<and> last validSymbols = ''STOP''"
  by (simp add: validSymbols_def)


text \<open>
  Claim C6. A random phrase should have a length in 4..9, symbols drawn from all 64
  indices 0..63 and inflections from all of 0..3. \<^verbatim>\<open>random(min, max)\<close> excludes its upper
  bound, so \<^verbatim>\<open>random(0, 63)\<close> and \<^verbatim>\<open>random(0, 3)\<close> stop one short: on every board and
  for every generator, from a buffer of the declared size, the call returns with a length
  in 4..9, every symbol written is one of the first 63 names and never the last one
  (STOP, index 63), and every inflection written is at most 2.
\<close>

theorem setFromRandom_draws:
  assumes "well_sized (phrase (g w))"
  shows "\<exists>w'. setFromRandom P w = Returns w' \<and>
     4 \<le> length_f (phrase (g w')) \<and> length_f (phrase (g w')) \<le> 9 \<and>
     (\<forall>i < nat (length_f (phrase (g w'))).
        symbols (phrase (g w')) ! i \<in> set (butlast validSymbols) \<and>
        symbols (phrase (g w')) ! i \<noteq> ''STOP'' \<and>
        0 \<le> inflections (phrase (g w')) ! i \<and> inflections (phrase (g w')) ! i \<le> 2)"
proof -
  obtain w1 where s: "seed_from_noise P w = Returns w1" and g1: "g w1 = g w"
    using seed_from_noise_Returns by blast
  define len where "len = fst (random2 P minLen maxLen w1)"
  define w2 where "w2 = snd (random2 P minLen maxLen w1)"
  define w3 where "w3 = set_phrase (\<lambda>p. p\<lparr>length_f := len\<rparr>) w2"
  have r: "4 \<le> len" "len \<le> 9"
    using random2_range [of minLen maxLen P w1] by (simp_all add: len_def minLen_def maxLen_def)
  have g2: "g w2 = g w" by (simp add: w2_def random2_g g1)
  have p3: "phrase (g w3) = (phrase (g w))\<lparr>length_f := len\<rparr>" by (simp add: w3_def set_phrase_def g2)
  have ws3: "well_sized (phrase (g w3))" using assms by (simp add: p3 well_sized_def)
  have n: "nat len \<le> maxLength" using r by (simp add: maxLength_def)
  from setFromRandom_loop [OF ws3 n, of P]
  obtain w4 where l: "for_each (setFromRandom_body seed_from_noise P) [0..<nat len] w3 = Returns w4"
    and len4: "length_f (phrase (g w4)) = len"
    and inv: "\<forall>i<nat len. symbols (phrase (g w4)) ! i \<in> set (butlast validSymbols) \<and>
        0 \<le> inflections (phrase (g w4)) ! i \<and> inflections (phrase (g w4)) ! i \<le> 2"
    by (auto simp: p3)
  have run: "setFromRandom P w =
      Returns (debugPrint (''Generated new random phrase of length '' @ String_of (length_f (phrase (g w4)))) w4)"
    unfolding setFromRandom_def setFromRandom_from_def s
    by (simp add: then_do_def split_beta Let_def for_upto_def p3 l flip: len_def w2_def w3_def)
  have "symbols (phrase (g w4)) ! i \<noteq> ''STOP''" if "i < nat len" for i
    using inv that STOP_is_last by metis
  with run r len4 inv show ?thesis
    by (intro exI [of _ "debugPrint (''Generated new random phrase of length '' @ String_of (length_f (phrase (g w4)))) w4"])
      (simp add: debugPrint_g)
qed

theorem setFromRandom_draws_witness:
  "well_sized (phrase (g (world_new False))) \<and>
   map_option length_f (returned_phrase (setFromRandom (board True True) (world_new False))) = Some 5 \<and>
   map_option (take 5) (map_option symbols (returned_phrase (setFromRandom (board True True) (world_new False)))) =
     Some [''Y1'', ''Y1'', ''Y1'', ''Y1'', ''Y1'']"
proof -
  have e: "well_sized (phrase (g (world_new False)))"
    by code_simp
  have v: "map_option length_f (returned_phrase (setFromRandom (board True True) (world_new False))) = Some 5"
    "map_option (take 5) (map_option symbols (returned_phrase (setFromRandom (board True True) (world_new False)))) =
     Some [''Y1'', ''Y1'', ''Y1'', ''Y1'', ''Y1'']"
    by code_simp+
  show ?thesis
    using setFromRandom_draws [OF e, of "board True True"] e v by simp
qed


subsection \<open>The Grid source\<close>

lemma float_to_long_unit:
  assumes "- 1 \<le> x" "x \<le> 1"
  shows "float_to_long x = Inr (if x = - 1 then - 1 else if x = 1 then 1 else 0)"
proof -
  consider "x = - 1" | "x = 1" | "- 1 < x" "x < 0" | "0 \<le> x" "x < 1" using assms by linarith
  then show ?thesis
  proof cases
    case 3
    then have "\<lceil>x\<rceil> = 0" by (simp add: ceiling_eq_iff)
    with 3 show ?thesis by (simp add: float_to_long_def in_long_def LONG_MIN_def LONG_MAX_def)
  next
    case 4
    then have "\<lfloor>x\<rfloor> = 0" by (simp add: floor_eq_iff)
    with 4 show ?thesis by (simp add: float_to_long_def in_long_def LONG_MIN_def LONG_MAX_def)
  next
    case 1
    then have "\<lceil>x\<rceil> = - 1" by (simp add: ceiling_eq_iff)
    with 1 show ?thesis by (simp add: float_to_long_def in_long_def LONG_MIN_def LONG_MAX_def)
  next
    case 2
    then show ?thesis by (simp add: float_to_long_def in_long_def LONG_MIN_def LONG_MAX_def)
  qed
qed

lemma map_long_grid:
  "map_long (- 1) (- 1) 1 0 7 = Inr 0" "map_long 0 (- 1) 1 0 7 = Inr 3" "map_long 1 (- 1) 1 0 7 = Inr 7"
  "map_long (- 1) (- 1) 1 0 4 = Inr 0" "map_long 0 (- 1) 1 0 4 = Inr 2" "map_long 1 (- 1) 1 0 4 = Inr 4"
  by (simp_all add: map_long_def in_long_def LONG_MIN_def LONG_MAX_def c_div_def)

lemma grid_lookup_values:
  "grid_lookup 0 0 = Returns ''E''" "grid_lookup 0 2 = Returns ''AE''" "grid_lookup 0 4 = Returns ''OO1''"
  "grid_lookup 3 0 = Returns ''Y1''" "grid_lookup 3 2 = Returns ''AH1''" "grid_lookup 3 4 = Returns ''L''"
  "grid_lookup 7 0 = Returns ''I3''" "grid_lookup 7 2 = Returns ''AW2''" "grid_lookup 7 4 = Returns ''W''"
  by code_simp+


lemma set_symbol_first:
  "symbols (phrase (g w)) \<noteq> [] \<Longrightarrow>
   set_symbol 0 v w = Returns (set_phrase (\<lambda>p. p\<lparr>symbols := (symbols (phrase (g w)))[0 := v]\<rparr>) w)"
  by (simp add: set_symbol_def array_set_def of_read_def then_do_def)


text \<open>Nothing clamps: from 2 upwards every x ends in undefined behaviour.\<close>

lemma setFromGrid_no_clamp:
  assumes "2 \<le> x"
  shows "returned (setFromGrid x y w) = None"
proof -
  have t: "2 \<le> \<lfloor>x\<rfloor>" using assms by (simp add: le_floor_iff)
  have f: "float_to_long x = (if in_long \<lfloor>x\<rfloor> then Inr \<lfloor>x\<rfloor> else Inl FloatOutOfLongRange)"
    using assms by (simp add: float_to_long_def)
  have m: "map_long \<lfloor>x\<rfloor> (- 1) 1 0 7 = Inr r \<Longrightarrow> 8 \<le> r" for r
  proof -
    assume a: "map_long \<lfloor>x\<rfloor> (- 1) 1 0 7 = Inr r"
    have "0 \<le> (\<lfloor>x\<rfloor> + 1) * 7" using t by simp
    then have c: "c_div ((\<lfloor>x\<rfloor> + 1) * 7) 2 = (\<lfloor>x\<rfloor> + 1) * 7 div 2"
      by (cases "(\<lfloor>x\<rfloor> + 1) * 7 = 0") (simp_all add: c_div_def sgn_if)
    have "r = (\<lfloor>x\<rfloor> + 1) * 7 div 2"
      using a c by (simp add: map_long_def Let_def split: if_splits)
    moreover have "8 \<le> (k + 1) * 7 div 2" if "2 \<le> k" for k :: int
    proof -
      have "21 \<le> (k + 1) * 7" using that by simp
      then have "21 div 2 \<le> (k + 1) * 7 div 2" by (intro zdiv_mono1) simp_all
      then show ?thesis by simp
    qed
    ultimately show "8 \<le> r" using t by blast
  qed
  have l: "8 \<le> r \<Longrightarrow> grid_lookup r c = Undefined IndexOutOfBounds" for r c
    by (simp add: grid_lookup_def array_at_def of_read_def then_do_def vowelGrid_def)
  show ?thesis
    unfolding setFromGrid_def Let_def f
    by (auto simp: of_read_def then_do_def returned_def l dest!: m split: sum.splits outcome.splits)
qed

text \<open>
  In \<^verbatim>\<open>part_000\<close>, with the input range 0 to 5, (1, 1) selects \<^verbatim>\<open>vowelGrid[1][0]\<close>
  and (-1, -1) indexes row -1.
\<close>

lemma setFromGrid_p0_samples:
  "map_option (hd \<circ> symbols) (returned_phrase (setFromGrid_p0 1 1 (world_new False))) =
     Some (validSymbols ! nat (vowelGrid ! 1 ! 0)) \<and>
   setFromGrid_p0 (- 1) (- 1) (world_new False) = Undefined IndexOutOfBounds"
  by code_simp

text \<open>
  On the closed square the call returns: the row is 0 for x = -1, 7 for x = 1 and 3 for
  every x in between, the column 0, 4 and 2; the phrase gets length 1 and the name at
  index 0, and its inflections stay as they were.
\<close>

lemma setFromGrid_unit_square:
  assumes "- 1 \<le> x" "x \<le> 1" "- 1 \<le> y" "y \<le> 1" "symbols (phrase (g w)) \<noteq> []"
  shows "returned_phrase (setFromGrid x y w) =
     Some ((phrase (g w))
       \<lparr>symbols := (symbols (phrase (g w)))
          [0 := validSymbols ! nat (vowelGrid ! (if x = - 1 then 0 else if x = 1 then 7 else 3)
                                             ! (if y = - 1 then 0 else if y = 1 then 4 else 2))],
        length_f := 1\<rparr>)"
proof -
  have s: "symbols (phrase (g (set_phrase (\<lambda>p. p\<lparr>length_f := 1\<rparr>) w))) \<noteq> []"
    using assms(5) by (simp add: set_phrase_def)
  have v: "validSymbols ! 44 = ''E''" "validSymbols ! 46 = ''AE''" "validSymbols ! 22 = ''OO1''"
    "validSymbols ! 34 = ''Y1''" "validSymbols ! 21 = ''AH1''" "validSymbols ! 24 = ''L''"
    "validSymbols ! 9 = ''I3''" "validSymbols ! 48 = ''AW2''" "validSymbols ! 45 = ''W''"
    by code_simp+
  have vg: "vowelGrid ! 0 = [44, 59, 46, 51, 22]" "vowelGrid ! 3 = [34, 0, 21, 35, 24]" "vowelGrid ! 7 = [9, 33, 48, 23, 45]"
    by (simp_all add: vowelGrid_def)
  show ?thesis
    unfolding setFromGrid_def Let_def float_to_long_unit [OF assms(1,2)] float_to_long_unit [OF assms(3,4)]
    apply (simp add: of_read_def then_do_def map_long_grid grid_lookup_values set_symbol_first [OF s]
        returned_phrase_def returned_def debugPrint_g)
    apply (simp add: set_phrase_def vg v)
    done
qed

text \<open>
  Outside the square nothing clamps (x = 2 reads row 10), and a grid phrase generated
  after a random one keeps the inflection the random phrase left at index 0.
\<close>

lemma setFromGrid_outside_and_inflection:
  "setFromGrid 2 0 (world_new False) = Undefined IndexOutOfBounds \<and>
   map_option (hd \<circ> inflections)
     (returned_phrase (then_do (setFromRandom (board True True) (world_new False)) (setFromGrid 1 1))) = Some 2"
  by code_simp

text \<open>
  Claim C7. Grid generation should quantise x into 8 buckets and y into 5 by linear
  scaling. The code hands the two floats to \<^verbatim>\<open>map\<close>, which takes \<^verbatim>\<open>long\<close>s, so each
  loses its fraction first: every point strictly inside the square becomes (0, 0) and
  selects the one cell \<^verbatim>\<open>vowelGrid[3][2]\<close>, whatever x and y are.
\<close>

theorem setFromGrid_interior_single_cell:
  assumes "- 1 < x" "x < 1" "- 1 < y" "y < 1" "symbols (phrase (g w)) \<noteq> []"
  shows "map_option (hd \<circ> symbols) (returned_phrase (setFromGrid x y w)) =
     Some (validSymbols ! nat (vowelGrid ! 3 ! 2))"
proof -
  have "returned_phrase (setFromGrid x y w) =
     Some ((phrase (g w))
       \<lparr>symbols := (symbols (phrase (g w)))[0 := validSymbols ! nat (vowelGrid ! 3 ! 2)],
        length_f := 1\<rparr>)"
    using setFromGrid_unit_square [of x y w] assms by simp
  then show ?thesis
    using assms(5) by (simp add: hd_conv_nth)
qed

text \<open>
  At (0.5, -0.5) and at (-0.5, 0.5) the code selects the same name AH1, where linear
  scaling into 8 and 5 buckets gives the cells [5][1] and [1][3], the names A1 and UH1.
\<close>

theorem setFromGrid_interior_single_cell_witness:
  "(- 1 :: real) < 1 / 2 \<and> (1 / 2 :: real) < 1 \<and> (- 1 :: real) < - 1 / 2 \<and> (- 1 / 2 :: real) < 1 \<and>
   symbols (phrase (g (world_new False))) \<noteq> [] \<and>
   map_option (hd \<circ> symbols) (returned_phrase (setFromGrid (1 / 2) (- 1 / 2) (world_new False))) = Some ''AH1'' \<and>
   map_option (hd \<circ> symbols) (returned_phrase (setFromGrid (- 1 / 2) (1 / 2) (world_new False))) = Some ''AH1'' \<and>
   validSymbols ! nat (vowelGrid ! nat (quantize_spec 8 (1 / 2)) ! nat (quantize_spec 5 (- 1 / 2))) = ''A1'' \<and>
   validSymbols ! nat (vowelGrid ! nat (quantize_spec 8 (- 1 / 2)) ! nat (quantize_spec 5 (1 / 2))) = ''UH1''"
proof -
  have e: "symbols (phrase (g (world_new False))) \<noteq> []"
    by code_simp
  have c: "validSymbols ! nat (vowelGrid ! 3 ! 2) = ''AH1''"
    by code_simp
  have s: "validSymbols ! nat (vowelGrid ! nat (quantize_spec 8 (1 / 2)) ! nat (quantize_spec 5 (- 1 / 2))) = ''A1''"
    "validSymbols ! nat (vowelGrid ! nat (quantize_spec 8 (- 1 / 2)) ! nat (quantize_spec 5 (1 / 2))) = ''UH1''"
    by code_simp+
  show ?thesis
    using setFromGrid_interior_single_cell [of "1 / 2" "- 1 / 2" "world_new False", OF _ _ _ _ e]
      setFromGrid_interior_single_cell [of "- 1 / 2" "1 / 2" "world_new False", OF _ _ _ _ e]
      e s
    by (simp add: c)
qed

subsection \<open>ClockGenerator\<close>

lemma word_le_1_cases: "(p :: uint32_t) \<le> 1 \<Longrightarrow> p = 0 \<or> p = 1"
proof -
  assume "p \<le> 1"
  then have "p < 1 \<or> p = 1" by (simp add: le_less)
  then show ?thesis by simp
qed

lemma setFreq_eq:
  "setFreq z freq_knob voct_val (h, t) =
     (case freqToTicks z (h\<lparr>target_freq := 720 * MHz h * ucast freq_knob * ucast voct_val\<rparr>)
             (720 * MHz h * ucast freq_knob * ucast voct_val) of
        Inl e \<Rightarrow> Undefined e
      | Inr ticks \<Rightarrow>
          Returns (h\<lparr>target_freq := 720 * MHz h * ucast freq_knob * ucast voct_val\<rparr>,
                   t\<lparr>ARR := ticks, CCR1 := ticks * target_pw h\<rparr>))"
  by (simp add: setFreq_def Let_def of_read_def then_do_def split: sum.splits)

lemma freqToTicks_cases:
  "freqToTicks z h freq = Inl e \<Longrightarrow> e = DivisionByZero \<and> z = None \<and> freq = 0"
  by (auto simp: freqToTicks_def split: if_splits option.splits)

lemma HardwarePWM_new_fields:
  "default_pw_period (HardwarePWM_new pclk2) = 0" "target_pw (HardwarePWM_new pclk2) = 0"
  by (simp_all add: HardwarePWM_new_def Let_def uint32_of_double_def)

text \<open>
  Claim C8, as amended. After initialisation CCR1 is at most ARR, and the stored duty is
  at most 1. Every \<^verbatim>\<open>setFreq\<close> made while the stored duty is at most 1, with any
  frequency-knob and pitch values, leaves CCR1 at most ARR and the stored duty as it was;
  the call completes for all values, but for a division by zero on a processor that traps
  it. So the bound holds after initialisation and after every \<^verbatim>\<open>setFreq\<close> for as long as
  \<^verbatim>\<open>setPulseWidth\<close>, which clamps nothing, has not stored a larger duty.
\<close>

theorem clock_registers:
  "duty_within_period (snd (Init (HardwarePWM_new clk, t0))) \<and>
   target_pw (fst (Init (HardwarePWM_new clk, t0))) \<le> 1 \<and>
   (target_pw h \<le> 1 \<longrightarrow>
     (case setFreq z freq_knob voct_val (h, t) of
        Returns ht' \<Rightarrow> duty_within_period (snd ht') \<and> target_pw (fst ht') = target_pw h
      | Undefined e \<Rightarrow> e = DivisionByZero \<and> z = None
      | Hangs tr \<Rightarrow> False))"
proof -
  have a: "duty_within_period (snd (Init (HardwarePWM_new clk, t0)))"
    by (simp add: Init_def duty_within_period_def HardwarePWM_new_fields)
  have b: "target_pw (fst (Init (HardwarePWM_new clk, t0))) \<le> 1"
    by (simp add: Init_def HardwarePWM_new_fields)
  have m: "target_pw h \<le> 1 \<Longrightarrow> x * target_pw h \<le> x" for x :: uint32_t
    using word_le_1_cases [of "target_pw h"] by auto
  have c: "case setFreq z freq_knob voct_val (h, t) of
        Returns ht' \<Rightarrow> duty_within_period (snd ht') \<and> target_pw (fst ht') = target_pw h
      | Undefined e \<Rightarrow> e = DivisionByZero \<and> z = None
      | Hangs tr \<Rightarrow> False" if "target_pw h \<le> 1"
    using m [OF that]
    by (auto simp: setFreq_eq duty_within_period_def split: sum.splits dest: freqToTicks_cases)
  from a b c show ?thesis by blast
qed

text \<open>
  At a peripheral clock of 100 MHz, on a processor that gives 0 for a division by zero:
  after initialisation \<^verbatim>\<open>setFreq(0, 0)\<close> returns with CCR1 = 0 under ARR, and so does
  \<^verbatim>\<open>setFreq(1, 7)\<close>.
\<close>

theorem clock_registers_witness:
  "target_pw (fst (Init (HardwarePWM_new 100000000, \<lparr>ARR = 65535, CCR1 = 0\<rparr>))) \<le> 1 \<and>
   map_option snd (returned (setFreq (Some 0) 0 0 (Init (HardwarePWM_new 100000000, \<lparr>ARR = 65535, CCR1 = 0\<rparr>)))) =
     Some \<lparr>ARR = 4294967295, CCR1 = 0\<rparr> \<and>
   map_option snd (returned (setFreq (Some 0) 1 7 (Init (HardwarePWM_new 100000000, \<lparr>ARR = 65535, CCR1 = 0\<rparr>)))) =
     Some \<lparr>ARR = 1652, CCR1 = 0\<rparr> \<and>
   duty_within_period \<lparr>ARR = 4294967295, CCR1 = 0\<rparr> \<and>
   duty_within_period \<lparr>ARR = 1652, CCR1 = 0\<rparr>"
  using clock_registers [where clk = 100000000 and freq_knob = 0 and voct_val = 0 and z = "Some 0"
      and h = "HardwarePWM_new 100000000" and t = "\<lparr>ARR = 15431, CCR1 = 0\<rparr>"]
    clock_registers [where clk = 100000000 and freq_knob = 1 and voct_val = 7 and z = "Some 0"
      and h = "HardwarePWM_new 100000000" and t = "\<lparr>ARR = 15431, CCR1 = 0\<rparr>"]
  by code_simp

text \<open>
  The claim as stated fails: after initialisation at a peripheral clock of 100 MHz, where
  ARR is 15431, \<^verbatim>\<open>setPulseWidth(2)\<close> returns and leaves CCR1 at 30861; and a
  \<^verbatim>\<open>setFreq(1, 1)\<close> after it leaves CCR1 at 23146 over ARR at 11573.
\<close>

theorem setPulseWidth_exceeds_period:
  "returned (setPulseWidth None 2 (Init (HardwarePWM_new 100000000, \<lparr>ARR = 65535, CCR1 = 0\<rparr>))) \<noteq> None \<and>
   \<not> duty_within_period
       (snd (the (returned (setPulseWidth None 2 (Init (HardwarePWM_new 100000000, \<lparr>ARR = 65535, CCR1 = 0\<rparr>)))))) \<and>
   map_option snd (returned (then_do
       (setPulseWidth None 2 (Init (HardwarePWM_new 100000000, \<lparr>ARR = 65535, CCR1 = 0\<rparr>)))
       (setFreq None 1 1))) = Some \<lparr>ARR = 11573, CCR1 = 23146\<rparr> \<and>
   \<not> duty_within_period \<lparr>ARR = 11573, CCR1 = 23146\<rparr>"
  by code_simp

end
